theory Spec2Isabelle
  imports Complex_Main
begin

section \<open>NumPy arrays and Python errors\<close>

text \<open>
  The module \<^verbatim>\<open>utils/visualizations.py\<close> works on NumPy arrays. An array is modelled by
  its element type, its shape and its elements in row-major order, as NumPy stores them.
  An element is a finite number, one of the two infinities or a NaN; finite \<^verbatim>\<open>float64\<close>
  values are read as the real numbers they denote (rounding is not modelled), and
  an \<^verbatim>\<open>int64\<close> array holds integers only.
\<close>

datatype cell = Fin real | PInf | NInf | NaN

datatype dtype = int64 | float64

record ndarray =
  dtype :: dtype
  shape :: "nat list"
  data :: "cell list"

text \<open>The argument of a call: a NumPy array, or some other object (named by its type).\<close>

datatype pyobj = NdArray ndarray | NotArray string

fun is_integer :: "cell \<Rightarrow> bool" where
  "is_integer (Fin x) = (of_int \<lfloor>x\<rfloor> = x)"
| "is_integer _ = False"

text \<open>What NumPy guarantees of every array: as many elements as the shape says, and
  integers only under an integer element type.\<close>

definition wf_ndarray :: "ndarray \<Rightarrow> bool" where
  "wf_ndarray a =
     (length (data a) = prod_list (shape a) \<and>
      (dtype a = float64 \<or> list_all is_integer (data a)))"

text \<open>The two messages of the module's \<^verbatim>\<open>assert\<close> statements, and the exceptions
  the module and NumPy raise.\<close>

datatype assertion =
  Expected_NumPy_array_got string
| Expected_square_shape_got "nat list"

datatype error =
  AssertionError assertion
| ValueError
| IndexError
| TypeError
| KeyError int
| Exception string

section \<open>\<^verbatim>\<open>convert_adj_to_edge_index\<close>\<close>

fun isinf :: "cell \<Rightarrow> bool" where
  "isinf PInf = True"
| "isinf NInf = True"
| "isinf _ = False"

text \<open>\<^verbatim>\<open>active_value = 0 if np.isinf(adjacency_matrix).any() else 1\<close>\<close>

definition active_value :: "ndarray \<Rightarrow> int" where
  "active_value a = (if list_ex isinf (data a) then 0 else 1)"

text \<open>\<^verbatim>\<open>adjacency_matrix[i, j]\<close> of an array of shape \<open>(h, w)\<close>, for \<open>i < h\<close> and \<open>j < w\<close>.\<close>

definition cell_at :: "ndarray \<Rightarrow> nat \<Rightarrow> nat \<Rightarrow> cell" where
  "cell_at a i j = data a ! (i * (shape a ! 1) + j)"

text \<open>The comparison \<^verbatim>\<open>adjacency_matrix[i, j] == active_value\<close> with a Python integer:
  an infinity or a NaN equals no integer.\<close>

definition equals_int :: "cell \<Rightarrow> int \<Rightarrow> bool" where
  "equals_int c v = (c = Fin (of_int v))"

text \<open>The two nested loops: the inner one over the columns of one row, the outer one
  over the rows, appending \<^verbatim>\<open>[src_node_id, trg_nod_id]\<close> to the list.\<close>

fun row_edges :: "ndarray \<Rightarrow> int \<Rightarrow> nat \<Rightarrow> nat list \<Rightarrow> (nat \<times> nat) list" where
  "row_edges a v src [] = []"
| "row_edges a v src (trg # trgs) =
     (if equals_int (cell_at a src trg) v then (src, trg) # row_edges a v src trgs
      else row_edges a v src trgs)"

fun edge_list :: "ndarray \<Rightarrow> int \<Rightarrow> nat list \<Rightarrow> nat \<Rightarrow> (nat \<times> nat) list" where
  "edge_list a v [] w = []"
| "edge_list a v (src # srcs) w = row_edges a v src [0..<w] @ edge_list a v srcs w"

text \<open>\<^verbatim>\<open>np.asarray(edge_index).transpose()\<close>. Of a non-empty list of pairs
  \<^verbatim>\<open>np.asarray\<close> makes an integer array of shape \<open>(N, 2)\<close>, transposed to \<open>(2, N)\<close>:
  all sources, then all targets. Of the empty list it makes the empty
  one-dimensional \<^verbatim>\<open>float64\<close> array, of shape \<open>(0,)\<close>, which \<^verbatim>\<open>transpose\<close> leaves as it is.\<close>

definition asarray_transpose :: "(nat \<times> nat) list \<Rightarrow> ndarray" where
  "asarray_transpose es =
     (if es = [] then \<lparr>dtype = float64, shape = [0], data = []\<rparr>
      else \<lparr>dtype = int64, shape = [2, length es],
            data = map (\<lambda>e. Fin (real (fst e))) es @ map (\<lambda>e. Fin (real (snd e))) es\<rparr>)"

text \<open>The function. \<^verbatim>\<open>h, w = adjacency_matrix.shape\<close> raises \<^verbatim>\<open>ValueError\<close> unless the
  array has two dimensions.\<close>

definition convert_adj_to_edge_index :: "pyobj \<Rightarrow> error + ndarray" where
  "convert_adj_to_edge_index adjacency_matrix =
     (case adjacency_matrix of
        NotArray t \<Rightarrow> Inl (AssertionError (Expected_NumPy_array_got t))
      | NdArray a \<Rightarrow>
          (case shape a of
             [h, w] \<Rightarrow>
               if h = w then Inr (asarray_transpose (edge_list a (active_value a) [0..<h] w))
               else Inl (AssertionError (Expected_square_shape_got [h, w]))
           | _ \<Rightarrow> Inl ValueError))"

text \<open>The spec's reconstruction (section 8 of the spec; the module has no such function):
  the pairs an edge index holds are the columns of a \<open>(2, N)\<close> array, an array of any
  other shape (the empty array of shape \<open>(0,)\<close>) holds none; the rebuilt \<open>n \<times> n\<close> matrix
  has a 1 at \<open>(src, trg)\<close> for every pair and a 0 elsewhere.\<close>

definition edge_pairs :: "ndarray \<Rightarrow> (cell \<times> cell) list" where
  "edge_pairs e =
     (case shape e of
        [r, N] \<Rightarrow> if r = 2 then zip (take N (data e)) (drop N (data e)) else []
      | _ \<Rightarrow> [])"

definition spec_rebuild_adjacency :: "nat \<Rightarrow> ndarray \<Rightarrow> ndarray" where
  "spec_rebuild_adjacency n e =
     \<lparr>dtype = float64, shape = [n, n],
      data = map (\<lambda>p. if (Fin (real (fst p)), Fin (real (snd p))) \<in> set (edge_pairs e)
                       then Fin 1 else Fin 0)
                 (List.product [0..<n] [0..<n])\<rparr>"

text \<open>The cells of a square matrix that equal a given integer, in row-major order: all
  columns of row 0, then row 1, and so on.\<close>

definition cells_equal :: "ndarray \<Rightarrow> nat \<Rightarrow> int \<Rightarrow> (nat \<times> nat) list" where
  "cells_equal a n v =
     filter (\<lambda>p. equals_int (cell_at a (fst p) (snd p)) v) (List.product [0..<n] [0..<n])"

section \<open>\<^verbatim>\<open>get_num_nodes_from_edge_index\<close>\<close>

text \<open>\<^verbatim>\<open>a[i]\<close> for an index \<open>i \<ge> 0\<close>: the \<open>i\<close>-th item along the first axis, an array of
  one dimension less. It raises \<^verbatim>\<open>IndexError\<close> when the first axis has no item \<open>i\<close>, or
  when the array has no axis.\<close>

definition index_axis0 :: "ndarray \<Rightarrow> nat \<Rightarrow> error + ndarray" where
  "index_axis0 a i =
     (case shape a of
        [] \<Rightarrow> Inl IndexError
      | n # rest \<Rightarrow>
          if i < n
          then Inr \<lparr>dtype = dtype a, shape = rest,
                    data = take (prod_list rest) (drop (i * prod_list rest) (data a))\<rparr>
          else Inl IndexError)"

text \<open>\<^verbatim>\<open>set(r)\<close> iterates \<open>r\<close> along its first axis and hashes each item: a scalar cannot
  be iterated, the items of a one-dimensional array are its elements, and the items of
  an array of more dimensions are arrays, which cannot be hashed. The set is kept as
  the list of its items.\<close>

definition py_set :: "ndarray \<Rightarrow> error + cell list" where
  "py_set r =
     (case shape r of
        [] \<Rightarrow> Inl TypeError
      | [n] \<Rightarrow> Inr (data r)
      | n # m # rest \<Rightarrow> if n = 0 then Inr [] else Inl TypeError)"

text \<open>\<^verbatim>\<open>len(s.union(t))\<close>: the number of distinct items. A NaN equals nothing, itself
  included, so every NaN item counts.\<close>

definition len_union :: "cell list \<Rightarrow> cell list \<Rightarrow> nat" where
  "len_union s t =
     length (remdups (filter (\<lambda>c. c \<noteq> NaN) (s @ t))) + length (filter (\<lambda>c. c = NaN) (s @ t))"

definition get_num_nodes_from_edge_index :: "ndarray \<Rightarrow> error + nat" where
  "get_num_nodes_from_edge_index edge_index =
     (case index_axis0 edge_index 0 of Inl e \<Rightarrow> Inl e | Inr row0 \<Rightarrow>
      case py_set row0 of Inl e \<Rightarrow> Inl e | Inr sources \<Rightarrow>
      case index_axis0 edge_index 1 of Inl e \<Rightarrow> Inl e | Inr row1 \<Rightarrow>
      case py_set row1 of Inl e \<Rightarrow> Inl e | Inr targets \<Rightarrow>
      Inr (len_union sources targets))"

section \<open>\<^verbatim>\<open>plot_in_out_degree_distributions\<close>\<close>

text \<open>\<^verbatim>\<open>arr[c]\<close> for a one-dimensional array of length \<open>n\<close> and an element \<open>c\<close> of an array
  of element type \<open>dt\<close>: an integer \<open>k\<close> addresses position \<open>k\<close> when \<open>0 \<le> k < n\<close> and
  position \<open>n + k\<close> when \<open>-n \<le> k < 0\<close>; any other integer, and every \<^verbatim>\<open>float64\<close> value,
  raises \<^verbatim>\<open>IndexError\<close>.\<close>

fun np_index :: "nat \<Rightarrow> dtype \<Rightarrow> cell \<Rightarrow> error + nat" where
  "np_index n int64 (Fin x) =
     (if 0 \<le> \<lfloor>x\<rfloor> \<and> \<lfloor>x\<rfloor> < int n then Inr (nat \<lfloor>x\<rfloor>)
      else if - int n \<le> \<lfloor>x\<rfloor> \<and> \<lfloor>x\<rfloor> < 0 then Inr (nat (int n + \<lfloor>x\<rfloor>))
      else Inl IndexError)"
| "np_index n dt c = Inl IndexError"

text \<open>The integers that address a position of an array of length \<open>n\<close>.\<close>

fun index_in_range :: "nat \<Rightarrow> cell \<Rightarrow> bool" where
  "index_in_range n (Fin x) = (- int n \<le> \<lfloor>x\<rfloor> \<and> \<lfloor>x\<rfloor> < int n)"
| "index_in_range n c = False"

text \<open>The loop over the edges, \<^verbatim>\<open>for cnt in range(edge_index.shape[1])\<close>: the out-degree
  of the source is incremented first, then the in-degree of the target. The state is
  the pair of arrays \<^verbatim>\<open>(in_degrees, out_degrees)\<close>.\<close>

fun degree_loop :: "ndarray \<Rightarrow> nat list \<Rightarrow> nat list \<times> nat list \<Rightarrow> error + nat list \<times> nat list" where
  "degree_loop edge_index [] (in_degrees, out_degrees) = Inr (in_degrees, out_degrees)"
| "degree_loop edge_index (cnt # cnts) (in_degrees, out_degrees) =
     (case np_index (length out_degrees) (dtype edge_index) (cell_at edge_index 0 cnt) of
        Inl e \<Rightarrow> Inl e
      | Inr s \<Rightarrow>
          (case np_index (length in_degrees) (dtype edge_index) (cell_at edge_index 1 cnt) of
             Inl e \<Rightarrow> Inl e
           | Inr t \<Rightarrow>
               degree_loop edge_index cnts
                 (in_degrees[t := in_degrees ! t + 1], out_degrees[s := out_degrees ! s + 1])))"

text \<open>Lines 46 to 58: the node count and the two degree arrays,
  \<^verbatim>\<open>np.zeros(num_of_nodes, dtype=np.int)\<close> each before the loop (\<^verbatim>\<open>np.int\<close> is the
  built-in \<^verbatim>\<open>int\<close> of the NumPy versions that still have the name).\<close>

definition degree_arrays :: "ndarray \<Rightarrow> error + nat \<times> nat list \<times> nat list" where
  "degree_arrays edge_index =
     (case get_num_nodes_from_edge_index edge_index of
        Inl e \<Rightarrow> Inl e
      | Inr num_of_nodes \<Rightarrow>
          (case degree_loop edge_index [0..<shape edge_index ! 1]
                  (replicate num_of_nodes 0, replicate num_of_nodes 0) of
             Inl e \<Rightarrow> Inl e
           | Inr (in_degrees, out_degrees) \<Rightarrow> Inr (num_of_nodes, in_degrees, out_degrees)))"

text \<open>\<^verbatim>\<open>np.max\<close> of an array of counts: \<^verbatim>\<open>ValueError\<close> on the empty array.\<close>

definition np_max_count :: "nat list \<Rightarrow> error + nat" where
  "np_max_count xs = (if xs = [] then Inl ValueError else Inr (fold max xs 0))"

text \<open>Lines 60 to 62: the histogram of the out-degrees (a \<^verbatim>\<open>float64\<close> array of counts,
  kept as natural numbers).\<close>

definition out_degree_hist :: "nat list \<Rightarrow> error + nat list" where
  "out_degree_hist out_degrees =
     (case np_max_count out_degrees of
        Inl e \<Rightarrow> Inl e
      | Inr m \<Rightarrow> Inr (fold (\<lambda>out_degree hist. hist[out_degree := hist ! out_degree + 1])
                        out_degrees (replicate (m + 1) 0)))"

text \<open>What the function computes and hands to the three plots (drawing them returns
  nothing and is not modelled further).\<close>

record degree_plot =
  num_of_nodes :: nat
  in_degrees :: "nat list"
  out_degrees :: "nat list"
  hist :: "nat list"
  hist_title :: string

text \<open>The function from line 46 on, for the edge index that lines 42 to 44 leave.\<close>

definition degree_distributions :: "ndarray \<Rightarrow> string \<Rightarrow> error + degree_plot" where
  "degree_distributions edge_index dataset_name =
     (case degree_arrays edge_index of
        Inl e \<Rightarrow> Inl e
      | Inr (n, ins, outs) \<Rightarrow>
          (case out_degree_hist outs of
             Inl e \<Rightarrow> Inl e
           | Inr h \<Rightarrow>
               Inr \<lparr>num_of_nodes = n, in_degrees = ins, out_degrees = outs, hist = h,
                    hist_title = ''Node out degree distribution for '' @ dataset_name @ '' dataset''\<rparr>))"

text \<open>The whole function. \<^verbatim>\<open>edge_index.shape[1]\<close> raises \<^verbatim>\<open>IndexError\<close> on an array of
  fewer than two dimensions.\<close>

definition plot_in_out_degree_distributions :: "pyobj \<Rightarrow> string \<Rightarrow> error + degree_plot" where
  "plot_in_out_degree_distributions edge_index dataset_name =
     (case edge_index of
        NotArray t \<Rightarrow> Inl (AssertionError (Expected_NumPy_array_got t))
      | NdArray a \<Rightarrow>
          (case shape a of
             s0 # s1 # rest \<Rightarrow>
               if s0 = s1
               then (case convert_adj_to_edge_index (NdArray a) of
                       Inl e \<Rightarrow> Inl e
                     | Inr converted \<Rightarrow> degree_distributions converted dataset_name)
               else degree_distributions a dataset_name
           | _ \<Rightarrow> Inl IndexError))"

section \<open>\<^verbatim>\<open>visualize_graph\<close>\<close>

text \<open>Modelled from the spec: the enumeration \<^verbatim>\<open>GraphVisualizationTool\<close> of
  \<^verbatim>\<open>utils/constants.py\<close> is not among the sources. The module names its members
  \<^verbatim>\<open>NETWORKX\<close> and \<^verbatim>\<open>IGRAPH\<close>; the spec speaks of a selector outside the two supported
  variants, which is a further member here, given by its \<^verbatim>\<open>name\<close>.\<close>

datatype GraphVisualizationTool = NETWORKX | IGRAPH | OtherTool string

fun tool_name :: "GraphVisualizationTool \<Rightarrow> string" where
  "tool_name NETWORKX = ''NETWORKX''"
| "tool_name IGRAPH = ''IGRAPH''"
| "tool_name (OtherTool name) = name"

text \<open>What the module takes from outside: the igraph library (building the graph from
  the vertex count and the edges, which igraph may refuse; edge betweenness, vertex
  degrees and the Kamada-Kawai layout of the graph built) and the constant
  \<^verbatim>\<open>network_repository_cora_url\<close> of \<^verbatim>\<open>utils/constants.py\<close>. They are parameters.\<close>

record ('g, 'l) environment =
  ig_Graph :: "nat \<Rightarrow> (cell \<times> cell) list \<Rightarrow> error + 'g"
  ig_edge_betweenness :: "'g \<Rightarrow> real list"
  ig_degree :: "'g \<Rightarrow> nat list"
  ig_layout_kamada_kawai :: "'g \<Rightarrow> 'l"
  network_repository_cora_url :: string

record 'l visual_style =
  bbox :: "nat \<times> nat"
  margin :: nat
  edge_width :: "cell list"
  vertex_size :: "real list"
  vertex_color :: "string list option"
  layout :: 'l

text \<open>What a call does besides returning: lines printed and drawing calls, in order.\<close>

datatype ('g, 'l) effect =
  Print string
| Nx_draw_networkx "(cell \<times> cell) list"
| Plt_show
| Ig_plot 'g "'l visual_style"

datatype outcome = Returned | Raised error

text \<open>\<^verbatim>\<open>list(zip(edge_index[0, :], edge_index[1, :]))\<close> for a two-dimensional array. (An
  array of more dimensions passes \<^verbatim>\<open>get_num_nodes_from_edge_index\<close> only when its
  second axis is empty, and then the list is empty.)\<close>

definition edge_index_tuples :: "ndarray \<Rightarrow> (cell \<times> cell) list" where
  "edge_index_tuples edge_index =
     (case shape edge_index of
        [s0, N] \<Rightarrow> zip (take N (data edge_index)) (take N (drop N (data edge_index)))
      | _ \<Rightarrow> [])"

text \<open>\<^verbatim>\<open>np.log\<close> of a real number: minus infinity at 0, NaN below.\<close>

definition np_log :: "real \<Rightarrow> cell" where
  "np_log x = (if 0 < x then Fin (ln x) else if x = 0 then NInf else NaN)"

text \<open>\<^verbatim>\<open>np.clip(x, a_min=0, a_max=None)\<close>\<close>

fun clip_min_0 :: "cell \<Rightarrow> cell" where
  "clip_min_0 (Fin x) = Fin (max 0 x)"
| "clip_min_0 NInf = Fin 0"
| "clip_min_0 PInf = PInf"
| "clip_min_0 NaN = NaN"

text \<open>\<^verbatim>\<open>np.max\<close> of a \<^verbatim>\<open>float64\<close> array: a NaN wins over every number, and the empty
  array raises \<^verbatim>\<open>ValueError\<close>.\<close>

fun cell_max :: "cell \<Rightarrow> cell \<Rightarrow> cell" where
  "cell_max NaN c = NaN"
| "cell_max c NaN = NaN"
| "cell_max PInf c = PInf"
| "cell_max c PInf = PInf"
| "cell_max NInf c = c"
| "cell_max c NInf = c"
| "cell_max (Fin x) (Fin y) = Fin (max x y)"

fun np_max :: "cell list \<Rightarrow> error + cell" where
  "np_max [] = Inl ValueError"
| "np_max (c # cs) = Inr (fold cell_max cs c)"

text \<open>Division of \<^verbatim>\<open>float64\<close> values (the sign of a zero is not modelled).\<close>

fun cell_div :: "cell \<Rightarrow> cell \<Rightarrow> cell" where
  "cell_div NaN c = NaN"
| "cell_div c NaN = NaN"
| "cell_div (Fin x) (Fin y) =
     (if y \<noteq> 0 then Fin (x / y) else if x = 0 then NaN else if 0 < x then PInf else NInf)"
| "cell_div (Fin x) c = Fin 0"
| "cell_div PInf (Fin y) = (if 0 \<le> y then PInf else NInf)"
| "cell_div NInf (Fin y) = (if 0 \<le> y then NInf else PInf)"
| "cell_div c d = NaN"

text \<open>\<^verbatim>\<open>w**6\<close>\<close>

fun pow6 :: "cell \<Rightarrow> cell" where
  "pow6 (Fin x) = Fin (x ^ 6)"
| "pow6 NaN = NaN"
| "pow6 c = PInf"

text \<open>Lines 126 and 127, from the list that \<^verbatim>\<open>ig_graph.edge_betweenness()\<close> returns.\<close>

definition edge_weights_raw :: "real list \<Rightarrow> cell list" where
  "edge_weights_raw betweenness = map (\<lambda>b. clip_min_0 (np_log b)) betweenness"

definition edge_weights_raw_normalized :: "real list \<Rightarrow> error + cell list" where
  "edge_weights_raw_normalized betweenness =
     (case np_max (edge_weights_raw betweenness) of
        Inl e \<Rightarrow> Inl e
      | Inr m \<Rightarrow> Inr (map (\<lambda>w. cell_div w m) (edge_weights_raw betweenness)))"

text \<open>The clipped logarithm of a betweenness \<open>b \<ge> 0\<close>, as a real number: what
  \<^verbatim>\<open>np.clip(np.log(b), a_min=0, a_max=None)\<close> is for such a \<open>b\<close>.\<close>

definition raw_weight :: "real \<Rightarrow> real" where
  "raw_weight b = (if 0 < b then max 0 (ln b) else 0)"

text \<open>\<^verbatim>\<open>str.lower\<close>, on ASCII letters.\<close>

definition lower_char :: "char \<Rightarrow> char" where
  "lower_char c =
     (if (65::nat) \<le> of_char c \<and> of_char c \<le> (90::nat) then char_of (of_char c + (32::nat)) else c)"

definition lower :: "string \<Rightarrow> string" where
  "lower s = map lower_char s"

text \<open>\<^verbatim>\<open>DatasetType.CORA.name\<close>: the name of an enumeration member is its identifier.\<close>

definition DatasetType_CORA_name :: string where
  "DatasetType_CORA_name = ''CORA''"

definition label_to_color_map :: "int \<rightharpoonup> string" where
  "label_to_color_map =
     [0 \<mapsto> ''red'', 1 \<mapsto> ''blue'', 2 \<mapsto> ''green'', 3 \<mapsto> ''orange'',
      4 \<mapsto> ''yellow'', 5 \<mapsto> ''pink'', 6 \<mapsto> ''gray'']"

text \<open>\<^verbatim>\<open>[label_to_color_map[label] for label in node_labels]\<close>: the first label that is
  no key of the map raises \<^verbatim>\<open>KeyError\<close>.\<close>

fun vertex_colors :: "int list \<Rightarrow> error + string list" where
  "vertex_colors [] = Inr []"
| "vertex_colors (label # labels) =
     (case label_to_color_map label of
        None \<Rightarrow> Inl (KeyError label)
      | Some color \<Rightarrow>
          (case vertex_colors labels of
             Inl e \<Rightarrow> Inl e
           | Inr colors \<Rightarrow> Inr (color # colors)))"

text \<open>Lines 107 to 132 of the igraph branch: the graph, the edge widths and the vertex
  sizes.\<close>

definition igraph_weights :: "('g, 'l) environment \<Rightarrow> nat \<Rightarrow> (cell \<times> cell) list \<Rightarrow>
    error + 'g \<times> cell list \<times> real list" where
  "igraph_weights env n tuples =
     (case ig_Graph env n tuples of
        Inl e \<Rightarrow> Inl e
      | Inr ig_graph \<Rightarrow>
          (case edge_weights_raw_normalized (ig_edge_betweenness env ig_graph) of
             Inl e \<Rightarrow> Inl e
           | Inr normalized \<Rightarrow>
               Inr (ig_graph, map pow6 normalized,
                    map (\<lambda>deg. real deg / 2) (ig_degree env ig_graph))))"

text \<open>Lines 144 to 150: the layout, the plot and the lines printed around it.\<close>

definition igraph_plot :: "('g, 'l) environment \<Rightarrow> 'g \<Rightarrow> cell list \<Rightarrow> real list \<Rightarrow>
    string list option \<Rightarrow> ('g, 'l) effect list" where
  "igraph_plot env ig_graph edge_weights sizes colors =
     [Print ''Plotting results ... (it may take couple of seconds).'',
      Ig_plot ig_graph
        \<lparr>bbox = (3000, 3000), margin = 35, edge_width = edge_weights, vertex_size = sizes,
         vertex_color = colors, layout = ig_layout_kamada_kawai env ig_graph\<rparr>,
      Print (''There are much better tools to visualize core like this one '' @
             network_repository_cora_url env @ ''.''),
      Print ''Nonetheless tools like igraph can be useful for quick visualization.'']"

text \<open>The igraph branch, lines 106 to 150.\<close>

definition igraph_branch :: "('g, 'l) environment \<Rightarrow> nat \<Rightarrow> (cell \<times> cell) list \<Rightarrow> int list \<Rightarrow>
    string \<Rightarrow> ('g, 'l) effect list \<times> outcome" where
  "igraph_branch env n tuples node_labels dataset_name =
     (case igraph_weights env n tuples of
        Inl e \<Rightarrow> ([], Raised e)
      | Inr (ig_graph, edge_weights, sizes) \<Rightarrow>
          if lower dataset_name = lower DatasetType_CORA_name
          then (case vertex_colors node_labels of
                  Inl e \<Rightarrow> ([], Raised e)
                | Inr colors \<Rightarrow>
                    (igraph_plot env ig_graph edge_weights sizes (Some colors), Returned))
          else (Print (''Feel free to add custom color scheme for your specific dataset. '' @
                       ''Using igraph default coloring.'') #
                igraph_plot env ig_graph edge_weights sizes None, Returned))"

text \<open>The function from line 94 on, for the edge index that lines 90 to 92 leave.\<close>

definition draw_edge_index :: "('g, 'l) environment \<Rightarrow> ndarray \<Rightarrow> int list \<Rightarrow> string \<Rightarrow>
    GraphVisualizationTool \<Rightarrow> ('g, 'l) effect list \<times> outcome" where
  "draw_edge_index env edge_index node_labels dataset_name visualization_tool =
     (case get_num_nodes_from_edge_index edge_index of
        Inl e \<Rightarrow> ([], Raised e)
      | Inr n \<Rightarrow>
          (case visualization_tool of
             NETWORKX \<Rightarrow> ([Nx_draw_networkx (edge_index_tuples edge_index), Plt_show], Returned)
           | IGRAPH \<Rightarrow>
               igraph_branch env n (edge_index_tuples edge_index) node_labels
                 dataset_name
           | OtherTool name \<Rightarrow>
               ([], Raised (Exception (''Visualization tool '' @ tool_name visualization_tool @
                                       '' not supported.'')))))"

text \<open>The whole function.\<close>

definition visualize_graph :: "('g, 'l) environment \<Rightarrow> pyobj \<Rightarrow> int list \<Rightarrow> string \<Rightarrow>
    GraphVisualizationTool \<Rightarrow> ('g, 'l) effect list \<times> outcome" where
  "visualize_graph env edge_index node_labels dataset_name visualization_tool =
     (case edge_index of
        NotArray t \<Rightarrow> ([], Raised (AssertionError (Expected_NumPy_array_got t)))
      | NdArray a \<Rightarrow>
          (case shape a of
             s0 # s1 # rest \<Rightarrow>
               if s0 = s1
               then (case convert_adj_to_edge_index (NdArray a) of
                       Inl e \<Rightarrow> ([], Raised e)
                     | Inr converted \<Rightarrow>
                         draw_edge_index env converted node_labels dataset_name
                           visualization_tool)
               else draw_edge_index env a node_labels dataset_name visualization_tool
           | _ \<Rightarrow> ([], Raised IndexError)))"

section \<open>An example environment\<close>

text \<open>What igraph computes for the path graph \<open>0 - 1 - 2 - 3\<close>, with the edges \<open>(0, 1)\<close>,
  \<open>(1, 2)\<close> and \<open>(2, 3)\<close>: 3, 4 and 3 shortest paths run through the three edges, and the
  vertices have the degrees 1, 2, 2 and 1. The graph is kept as the vertex count with
  the edges, the layout is left abstract.\<close>

definition path_graph_edge_index :: ndarray where
  "path_graph_edge_index =
     \<lparr>dtype = int64, shape = [2, 3], data = [Fin 0, Fin 1, Fin 2, Fin 1, Fin 2, Fin 3]\<rparr>"

definition path_graph_environment :: "(nat \<times> (cell \<times> cell) list, unit) environment" where
  "path_graph_environment =
     \<lparr>ig_Graph = (\<lambda>n edges. Inr (n, edges)),
      ig_edge_betweenness = (\<lambda>g. [3, 4, 3]),
      ig_degree = (\<lambda>g. [1, 2, 2, 1]),
      ig_layout_kamada_kawai = (\<lambda>g. ()),
      network_repository_cora_url = ''URL''\<rparr>"

section \<open>Properties of the conversion\<close>

lemma row_edges_filter:
  "row_edges a v src trgs =
   map (Pair src) (filter (\<lambda>trg. equals_int (cell_at a src trg) v) trgs)"
  by (induction trgs) simp_all

lemma filter_map_Pair:
  "filter P (map (Pair i) js) = map (Pair i) (filter (\<lambda>j. P (i, j)) js)"
  by (induction js) simp_all

lemma edge_list_cells:
  "edge_list a v srcs w =
   filter (\<lambda>p. equals_int (cell_at a (fst p) (snd p)) v) (List.product srcs [0..<w])"
  by (induction srcs) (simp_all add: row_edges_filter filter_map_Pair)

lemma convert_square:
  "shape a = [n, n] \<Longrightarrow>
   convert_adj_to_edge_index (NdArray a) =
     Inr (asarray_transpose (cells_equal a n (active_value a)))"
  by (simp add: convert_adj_to_edge_index_def cells_equal_def edge_list_cells)

lemma set_cells_equal:
  "set (cells_equal a n v) = {(i, j). i < n \<and> j < n \<and> equals_int (cell_at a i j) v}"
  by (auto simp: cells_equal_def)

lemma edge_pairs_asarray_transpose:
  "edge_pairs (asarray_transpose es) = map (\<lambda>e. (Fin (real (fst e)), Fin (real (snd e)))) es"
  by (simp add: edge_pairs_def asarray_transpose_def zip_map_map zip_same_conv_map)

lemma slice_nth:
  "k + n \<le> length xs \<Longrightarrow> map (\<lambda>j. xs ! (k + j)) [0..<n] = take n (drop k xs)"
  by (rule nth_equalityI) simp_all

lemma product_append:
  "List.product (xs @ zs) ys = List.product xs ys @ List.product zs ys"
  by (induction xs) simp_all

lemma row_major_take:
  "m * n \<le> length xs \<Longrightarrow>
   map (\<lambda>p. xs ! (fst p * n + snd p)) (List.product [0..<m] [0..<n]) = take (m * n) xs"
proof (induction m)
  case 0
  show ?case by simp
next
  case (Suc m)
  have "m * n + n \<le> length xs" using Suc.prems by simp
  then have row: "map (\<lambda>j. xs ! (m * n + j)) [0..<n] = take n (drop (m * n) xs)"
    by (rule slice_nth)
  have "m * n \<le> length xs" using Suc.prems by simp
  then have ih: "map (\<lambda>p. xs ! (fst p * n + snd p)) (List.product [0..<m] [0..<n]) = take (m * n) xs"
    by (rule Suc.IH)
  have "map (\<lambda>p. xs ! (fst p * n + snd p)) (List.product [0..<Suc m] [0..<n]) =
        take (m * n) xs @ take n (drop (m * n) xs)"
    by (simp only: upt_Suc_append [OF le0] product_append map_append ih)
       (simp add: comp_def row)
  also have "\<dots> = take (m * n + n) xs"
    by (simp only: take_add)
  finally show ?case by (simp add: add.commute)
qed

lemma row_major_cells:
  assumes "shape a = [n, n]" and "length (data a) = n * n"
  shows "map (\<lambda>p. cell_at a (fst p) (snd p)) (List.product [0..<n] [0..<n]) = data a"
  using row_major_take [of n n "data a"] assms by (simp add: cell_at_def)

lemma cell_index_bound:
  assumes "i < n" and "j < (n::nat)"
  shows "i * n + j < n * n"
proof -
  have "i * n + j < i * n + n" using assms by simp
  also have "\<dots> = Suc i * n" by simp
  also have "\<dots> \<le> n * n" using assms by (intro mult_le_mono1) simp
  finally show ?thesis .
qed

lemma cell_at_in_data:
  assumes "shape a = [n, n]" and "length (data a) = n * n" and "i < n" and "j < n"
  shows "cell_at a i j \<in> set (data a)"
  using assms cell_index_bound [of i n j] by (simp add: cell_at_def)

lemma wf_square_length:
  "wf_ndarray a \<Longrightarrow> shape a = [n, n] \<Longrightarrow> length (data a) = n * n"
  by (simp add: wf_ndarray_def)

lemma binary_no_inf:
  "list_all (\<lambda>c. c = Fin 0 \<or> c = Fin 1) cs \<Longrightarrow> \<not> list_ex isinf cs"
  by (induction cs) auto

lemma pair_in_edge_pairs:
  "(Fin (real i), Fin (real j)) \<in> set (edge_pairs (asarray_transpose es)) \<longleftrightarrow> (i, j) \<in> set es"
  by (force simp: edge_pairs_asarray_transpose image_iff)

text \<open>C6: a two-dimensional array whose two dimensions differ fails the shape assertion,
  and an argument that is no NumPy array fails the type assertion; in both cases the
  call ends with the \<^verbatim>\<open>AssertionError\<close> and returns no edge list.\<close>

theorem convert_rejects_non_square_and_non_array:
  "(shape a = [h, w] \<and> h \<noteq> w \<longrightarrow>
      convert_adj_to_edge_index (NdArray a) =
        Inl (AssertionError (Expected_square_shape_got [h, w]))) \<and>
   convert_adj_to_edge_index (NotArray t) = Inl (AssertionError (Expected_NumPy_array_got t))"
  by (simp add: convert_adj_to_edge_index_def)

theorem convert_rejects_witness:
  "convert_adj_to_edge_index
     (NdArray \<lparr>dtype = float64, shape = [2, 3],
               data = [Fin 0, Fin 1, Fin 0, Fin 1, Fin 0, Fin 0]\<rparr>) =
     Inl (AssertionError (Expected_square_shape_got [2, 3])) \<and>
   convert_adj_to_edge_index (NotArray ''list'') =
     Inl (AssertionError (Expected_NumPy_array_got ''list''))"
  using convert_rejects_non_square_and_non_array
    [of "\<lparr>dtype = float64, shape = [2, 3], data = [Fin 0, Fin 1, Fin 0, Fin 1, Fin 0, Fin 0]\<rparr>"
        2 3 "''list''"]
  by simp

text \<open>C2: a square matrix with at least one infinite entry has active value 0, and the
  conversion returns the pairs of exactly its cells equal to 0; a square matrix with
  no infinite entry has active value 1, and the conversion returns the pairs of
  exactly its cells equal to 1.\<close>

theorem active_value_detection:
  assumes "shape a = [n, n]"
  shows "(list_ex isinf (data a) \<longrightarrow>
            active_value a = 0 \<and>
            convert_adj_to_edge_index (NdArray a) = Inr (asarray_transpose (cells_equal a n 0)) \<and>
            set (cells_equal a n 0) = {(i, j). i < n \<and> j < n \<and> cell_at a i j = Fin 0}) \<and>
         (\<not> list_ex isinf (data a) \<longrightarrow>
            active_value a = 1 \<and>
            convert_adj_to_edge_index (NdArray a) = Inr (asarray_transpose (cells_equal a n 1)) \<and>
            set (cells_equal a n 1) = {(i, j). i < n \<and> j < n \<and> cell_at a i j = Fin 1})"
  using convert_square [OF assms]
  by (simp add: active_value_def set_cells_equal equals_int_def)

theorem active_value_detection_witness:
  "list_ex isinf (data \<lparr>dtype = float64, shape = [2, 2], data = [Fin 0, NInf, NInf, Fin 0]\<rparr>) \<and>
   active_value \<lparr>dtype = float64, shape = [2, 2], data = [Fin 0, NInf, NInf, Fin 0]\<rparr> = 0 \<and>
   convert_adj_to_edge_index
     (NdArray \<lparr>dtype = float64, shape = [2, 2], data = [Fin 0, NInf, NInf, Fin 0]\<rparr>) =
     Inr \<lparr>dtype = int64, shape = [2, 2], data = [Fin 0, Fin 1, Fin 0, Fin 1]\<rparr> \<and>
   \<not> list_ex isinf (data \<lparr>dtype = int64, shape = [2, 2], data = [Fin 0, Fin 1, Fin 1, Fin 0]\<rparr>) \<and>
   active_value \<lparr>dtype = int64, shape = [2, 2], data = [Fin 0, Fin 1, Fin 1, Fin 0]\<rparr> = 1 \<and>
   convert_adj_to_edge_index
     (NdArray \<lparr>dtype = int64, shape = [2, 2], data = [Fin 0, Fin 1, Fin 1, Fin 0]\<rparr>) =
     Inr \<lparr>dtype = int64, shape = [2, 2], data = [Fin 0, Fin 1, Fin 1, Fin 0]\<rparr>"
  using active_value_detection
          [of "\<lparr>dtype = float64, shape = [2, 2], data = [Fin 0, NInf, NInf, Fin 0]\<rparr>" 2]
        active_value_detection
          [of "\<lparr>dtype = int64, shape = [2, 2], data = [Fin 0, Fin 1, Fin 1, Fin 0]\<rparr>" 2]
  by (simp add: cells_equal_def asarray_transpose_def cell_at_def equals_int_def
        eval_nat_numeral)

text \<open>C1: for a square matrix with entries 0 and 1 only, the conversion returns an edge
  index, and the matrix rebuilt from it (a 1 at every returned pair, 0 elsewhere) is the
  original matrix.\<close>

theorem adjacency_round_trip:
  assumes wf: "wf_ndarray a" and sq: "shape a = [n, n]"
    and bin: "list_all (\<lambda>c. c = Fin 0 \<or> c = Fin 1) (data a)"
  shows "\<exists>e. convert_adj_to_edge_index (NdArray a) = Inr e \<and>
             shape (spec_rebuild_adjacency n e) = shape a \<and>
             data (spec_rebuild_adjacency n e) = data a"
proof -
  let ?es = "cells_equal a n 1"
  let ?e = "asarray_transpose ?es"
  have len: "length (data a) = n * n"
    using wf sq by (rule wf_square_length)
  have act: "active_value a = 1"
    using binary_no_inf [OF bin] by (simp add: active_value_def)
  have conv: "convert_adj_to_edge_index (NdArray a) = Inr ?e"
    using convert_square [OF sq] act by simp
  have cellwise: "(if (Fin (real (fst p)), Fin (real (snd p))) \<in> set (edge_pairs ?e)
                   then Fin 1 else Fin 0) = cell_at a (fst p) (snd p)"
    if "p \<in> set (List.product [0..<n] [0..<n])" for p
  proof -
    obtain i j where p: "p = (i, j)" by (cases p)
    have ij: "i < n" "j < n" using that p by simp_all
    have "cell_at a i j \<in> set (data a)"
      using sq len ij by (rule cell_at_in_data)
    then have "cell_at a i j = Fin 0 \<or> cell_at a i j = Fin 1"
      using bin by (simp add: list_all_iff)
    then show ?thesis
      using ij by (auto simp: p pair_in_edge_pairs set_cells_equal equals_int_def)
  qed
  have "data (spec_rebuild_adjacency n ?e) =
        map (\<lambda>p. cell_at a (fst p) (snd p)) (List.product [0..<n] [0..<n])"
    unfolding spec_rebuild_adjacency_def using cellwise by (simp cong: map_cong)
  also have "\<dots> = data a"
    using sq len by (rule row_major_cells)
  finally have "data (spec_rebuild_adjacency n ?e) = data a" .
  moreover have "shape (spec_rebuild_adjacency n ?e) = shape a"
    by (simp add: spec_rebuild_adjacency_def sq)
  ultimately show ?thesis using conv by blast
qed

theorem adjacency_round_trip_witness:
  "wf_ndarray \<lparr>dtype = int64, shape = [2, 2], data = [Fin 0, Fin 1, Fin 1, Fin 0]\<rparr> \<and>
   convert_adj_to_edge_index
     (NdArray \<lparr>dtype = int64, shape = [2, 2], data = [Fin 0, Fin 1, Fin 1, Fin 0]\<rparr>) =
     Inr \<lparr>dtype = int64, shape = [2, 2], data = [Fin 0, Fin 1, Fin 1, Fin 0]\<rparr> \<and>
   spec_rebuild_adjacency 2
     \<lparr>dtype = int64, shape = [2, 2], data = [Fin 0, Fin 1, Fin 1, Fin 0]\<rparr> =
     \<lparr>dtype = float64, shape = [2, 2], data = [Fin 0, Fin 1, Fin 1, Fin 0]\<rparr>"
  using adjacency_round_trip
          [of "\<lparr>dtype = int64, shape = [2, 2], data = [Fin 0, Fin 1, Fin 1, Fin 0]\<rparr>" 2]
  by (simp add: wf_ndarray_def convert_adj_to_edge_index_def cells_equal_def
        asarray_transpose_def cell_at_def equals_int_def eval_nat_numeral
        spec_rebuild_adjacency_def edge_pairs_def active_value_def)

text \<open>When at least one cell equals the active value, the conversion returns the pairs
  of exactly those cells, in row-major order, as an integer array of shape \<open>(2, N)\<close>:
  the \<open>N\<close> sources first, the \<open>N\<close> targets second.\<close>

lemma convert_returns_sources_targets:
  assumes "shape a = [n, n]" and "es = cells_equal a n (active_value a)" and "es \<noteq> []"
  shows "convert_adj_to_edge_index (NdArray a) =
           Inr \<lparr>dtype = int64, shape = [2, length es],
                data = map (\<lambda>e. Fin (real (fst e))) es @ map (\<lambda>e. Fin (real (snd e))) es\<rparr>"
  using convert_square [OF assms(1)] assms(2,3) by (simp add: asarray_transpose_def)

text \<open>C3: the conversion is to return the pairs as two parallel sequences, sources and
  targets (the source's comment: from shape \<open>(N, 2)\<close> into \<open>(2, N)\<close>). For the
  \<open>2 \<times> 2\<close> matrix of zeros, which has no cell equal to the active value 1, it returns the
  empty array of shape \<open>(0,)\<close>, which has no first and no second row, and not an array
  of shape \<open>(2, 0)\<close>.\<close>

theorem convert_without_edges_is_one_dimensional:
  "convert_adj_to_edge_index
     (NdArray \<lparr>dtype = int64, shape = [2, 2], data = [Fin 0, Fin 0, Fin 0, Fin 0]\<rparr>) =
     Inr \<lparr>dtype = float64, shape = [0], data = []\<rparr>"
  by (simp add: convert_adj_to_edge_index_def asarray_transpose_def cell_at_def equals_int_def
        eval_nat_numeral active_value_def)

section \<open>Properties of the degree statistics\<close>

lemma np_index_in_range:
  "index_in_range n c \<Longrightarrow> \<exists>k<n. np_index n int64 c = Inr k"
proof (cases c)
  case (Fin x)
  define k where "k = \<lfloor>x\<rfloor>"
  assume "index_in_range n c"
  then have "- int n \<le> k" "k < int n" by (simp_all add: Fin k_def)
  then have "(0 \<le> k \<longrightarrow> nat k < n) \<and> (\<not> 0 \<le> k \<longrightarrow> nat (int n + k) < n \<and> k < 0)"
    by auto
  then show ?thesis
    unfolding Fin np_index.simps k_def [symmetric] using \<open>k < int n\<close> \<open>- int n \<le> k\<close> by auto
qed simp_all

lemma np_index_out_of_range:
  "\<not> index_in_range n c \<Longrightarrow> np_index n int64 c = Inl IndexError"
proof (cases c)
  case (Fin x)
  define k where "k = \<lfloor>x\<rfloor>"
  assume "\<not> index_in_range n c"
  then have "\<not> (- int n \<le> k \<and> k < int n)" by (simp add: Fin k_def)
  then show ?thesis
    unfolding Fin np_index.simps k_def [symmetric] by auto
qed simp_all

lemma degree_loop_in_range:
  assumes "dtype ei = int64"
  shows "length ins = n \<Longrightarrow> length outs = n \<Longrightarrow>
     list_all (\<lambda>cnt. index_in_range n (cell_at ei 0 cnt) \<and> index_in_range n (cell_at ei 1 cnt)) cnts \<Longrightarrow>
     \<exists>ins' outs'. degree_loop ei cnts (ins, outs) = Inr (ins', outs') \<and>
        length ins' = n \<and> length outs' = n"
proof (induction cnts arbitrary: ins outs)
  case Nil
  then show ?case by simp
next
  case (Cons cnt cnts)
  obtain s where s: "np_index n int64 (cell_at ei 0 cnt) = Inr s"
    using Cons.prems(3) np_index_in_range by fastforce
  obtain t where t: "np_index n int64 (cell_at ei 1 cnt) = Inr t"
    using Cons.prems(3) np_index_in_range by fastforce
  have "\<exists>ins' outs'. degree_loop ei cnts (ins[t := ins ! t + 1], outs[s := outs ! s + 1]) = Inr (ins', outs') \<and>
        length ins' = n \<and> length outs' = n"
    using Cons.prems by (intro Cons.IH) simp_all
  then show ?case
    using s t assms Cons.prems(1,2) by simp
qed

lemma degree_loop_out_of_range:
  assumes "dtype ei = int64"
  shows "length ins = n \<Longrightarrow> length outs = n \<Longrightarrow>
     \<not> list_all (\<lambda>cnt. index_in_range n (cell_at ei 0 cnt) \<and> index_in_range n (cell_at ei 1 cnt)) cnts \<Longrightarrow>
     degree_loop ei cnts (ins, outs) = Inl IndexError"
proof (induction cnts arbitrary: ins outs)
  case Nil
  then show ?case by simp
next
  case (Cons cnt cnts)
  show ?case
  proof (cases "index_in_range n (cell_at ei 0 cnt)")
    case False
    then show ?thesis
      using np_index_out_of_range [OF False] assms Cons.prems(1,2) by simp
  next
    case src: True
    then obtain s where s: "np_index n int64 (cell_at ei 0 cnt) = Inr s"
      using np_index_in_range by blast
    show ?thesis
    proof (cases "index_in_range n (cell_at ei 1 cnt)")
      case False
      then show ?thesis
        using np_index_out_of_range [OF False] s assms Cons.prems(1,2) by simp
    next
      case True
      then obtain t where t: "np_index n int64 (cell_at ei 1 cnt) = Inr t"
        using np_index_in_range by blast
      have "degree_loop ei cnts (ins[t := ins ! t + 1], outs[s := outs ! s + 1]) = Inl IndexError"
        using Cons.prems src True by (intro Cons.IH) simp_all
      then show ?thesis
        using s t assms Cons.prems(1,2) by simp
    qed
  qed
qed

lemma two_rows_all:
  assumes "shape ei = [2, N]" and "length (data ei) = 2 * N"
  shows "list_all (\<lambda>cnt. P (cell_at ei 0 cnt) \<and> P (cell_at ei 1 cnt)) [0..<N] = list_all P (data ei)"
proof -
  have split: "data ei = take N (data ei) @ drop N (data ei)" by simp
  have "list_all P (data ei) = (list_all P (take N (data ei)) \<and> list_all P (drop N (data ei)))"
    by (subst split) (simp only: list_all_append)
  also have "list_all P (take N (data ei)) = (\<forall>cnt<N. P (data ei ! cnt))"
    using assms(2) by (simp add: list_all_length)
  also have "list_all P (drop N (data ei)) = (\<forall>cnt<N. P (data ei ! (N + cnt)))"
    using assms(2) by (simp add: list_all_length)
  finally show ?thesis
    using assms(1) by (auto simp: list_all_iff cell_at_def)
qed

lemma no_nan_integers: "list_all is_integer cs \<Longrightarrow> filter (\<lambda>c. c = NaN) cs = [] \<and> filter (\<lambda>c. c \<noteq> NaN) cs = cs"
  by (induction cs) auto

lemma get_num_nodes_two_rows:
  assumes "shape ei = [2, N]" and "length (data ei) = 2 * N"
  shows "get_num_nodes_from_edge_index ei = Inr (len_union (take N (data ei)) (drop N (data ei)))"
  using assms by (simp add: get_num_nodes_from_edge_index_def index_axis0_def py_set_def)

lemma len_union_integers:
  assumes "list_all is_integer cs"
  shows "len_union (take N cs) (drop N cs) = card (set cs)"
  using no_nan_integers [OF assms] by (simp add: len_union_def length_remdups_card_conv)

lemma plot_of_edge_index:
  "shape ei = [2, N] \<Longrightarrow> N \<noteq> 2 \<Longrightarrow>
   plot_in_out_degree_distributions (NdArray ei) dataset_name =
     degree_distributions ei dataset_name"
  by (simp add: plot_in_out_degree_distributions_def)

lemma out_degree_hist_succeeds:
  "outs \<noteq> [] \<Longrightarrow> \<exists>h. out_degree_hist outs = Inr h"
  by (simp add: out_degree_hist_def np_max_count_def)

text \<open>C4: for an integer edge index of shape \<open>(2, N)\<close> with \<open>N \<noteq> 2\<close> (an array of shape
  \<open>(2, 2)\<close> is converted first, see C9), \<^verbatim>\<open>plot_in_out_degree_distributions\<close> goes on with
  the edge index as given, and the two degree arrays have one slot for each distinct
  node id that appears as a source or a target (the count of the ids, not the largest
  id plus one). The increments of the loop stay within the arrays exactly when every
  id \<open>k\<close> that appears satisfies \<open>-n \<le> k < n\<close> for that count \<open>n\<close>, as the ids
  \<open>0, ..., n - 1\<close> do, and then, if there is an edge, the function returns arrays of
  \<open>n\<close> slots; with any other id the function raises \<^verbatim>\<open>IndexError\<close>.\<close>

theorem degree_arrays_sized_by_distinct_ids:
  assumes wf: "wf_ndarray ei" and int: "dtype ei = int64" and sh: "shape ei = [2, N]"
    and N: "N \<noteq> 2" and n: "card (set (data ei)) = n"
  shows "plot_in_out_degree_distributions (NdArray ei) dataset_name =
           degree_distributions ei dataset_name \<and>
         get_num_nodes_from_edge_index ei = Inr n \<and>
         (if list_all (index_in_range n) (data ei)
          then \<exists>ins outs.
                 degree_arrays ei = Inr (n, ins, outs) \<and> length ins = n \<and> length outs = n \<and>
                 (0 < N \<longrightarrow>
                    (\<exists>p. plot_in_out_degree_distributions (NdArray ei) dataset_name = Inr p \<and>
                         num_of_nodes p = n \<and> in_degrees p = ins \<and> out_degrees p = outs))
          else degree_arrays ei = Inl IndexError \<and>
               plot_in_out_degree_distributions (NdArray ei) dataset_name = Inl IndexError)"
proof -
  have len: "length (data ei) = 2 * N"
    using wf sh by (simp add: wf_ndarray_def)
  have ints: "list_all is_integer (data ei)"
    using wf int by (simp add: wf_ndarray_def)
  have plot: "plot_in_out_degree_distributions (NdArray ei) dataset_name =
                degree_distributions ei dataset_name"
    using sh N by (rule plot_of_edge_index)
  have num: "get_num_nodes_from_edge_index ei = Inr n"
    using get_num_nodes_two_rows [OF sh len] len_union_integers [OF ints] n by simp
  have rows: "list_all (\<lambda>cnt. index_in_range n (cell_at ei 0 cnt) \<and>
                               index_in_range n (cell_at ei 1 cnt)) [0..<N] =
              list_all (index_in_range n) (data ei)"
    using sh len by (rule two_rows_all)
  show ?thesis
  proof (cases "list_all (index_in_range n) (data ei)")
    case True
    have "\<exists>ins outs. degree_loop ei [0..<N] (replicate n 0, replicate n 0) = Inr (ins, outs) \<and>
            length ins = n \<and> length outs = n"
      using True rows by (intro degree_loop_in_range [OF int]) simp_all
    then obtain ins outs where
      arrays: "degree_arrays ei = Inr (n, ins, outs)" "length ins = n" "length outs = n"
      using num sh by (auto simp: degree_arrays_def)
    have "\<exists>p. plot_in_out_degree_distributions (NdArray ei) dataset_name = Inr p \<and>
               num_of_nodes p = n \<and> in_degrees p = ins \<and> out_degrees p = outs"
      if "0 < N"
    proof -
      have "data ei \<noteq> []" using len \<open>0 < N\<close> by auto
      then have "0 < n" using n by (auto simp: card_gt_0_iff)
      then have "outs \<noteq> []" using arrays(3) by auto
      then obtain h where "out_degree_hist outs = Inr h"
        using out_degree_hist_succeeds by blast
      then show ?thesis
        using arrays(1) by (simp add: plot degree_distributions_def)
    qed
    then show ?thesis
      using True plot num arrays by auto
  next
    case False
    have "degree_loop ei [0..<N] (replicate n 0, replicate n 0) = Inl IndexError"
      using False rows by (intro degree_loop_out_of_range [OF int]) simp_all
    then have "degree_arrays ei = Inl IndexError"
      using num sh by (simp add: degree_arrays_def)
    then show ?thesis
      using False plot num by (simp add: degree_distributions_def)
  qed
qed

theorem degree_arrays_witness:
  "get_num_nodes_from_edge_index
     \<lparr>dtype = int64, shape = [2, 3], data = [Fin 0, Fin 1, Fin 2, Fin 1, Fin 2, Fin 0]\<rparr> = Inr 3 \<and>
   (\<exists>ins outs.
      degree_arrays
        \<lparr>dtype = int64, shape = [2, 3], data = [Fin 0, Fin 1, Fin 2, Fin 1, Fin 2, Fin 0]\<rparr> =
        Inr (3, ins, outs) \<and> length ins = 3 \<and> length outs = 3 \<and>
      (\<exists>p. plot_in_out_degree_distributions
             (NdArray \<lparr>dtype = int64, shape = [2, 3],
                       data = [Fin 0, Fin 1, Fin 2, Fin 1, Fin 2, Fin 0]\<rparr>) ''toy'' = Inr p \<and>
           num_of_nodes p = 3 \<and> in_degrees p = ins \<and> out_degrees p = outs)) \<and>
   get_num_nodes_from_edge_index \<lparr>dtype = int64, shape = [2, 1], data = [Fin 0, Fin 5]\<rparr> = Inr 2 \<and>
   degree_arrays \<lparr>dtype = int64, shape = [2, 1], data = [Fin 0, Fin 5]\<rparr> = Inl IndexError \<and>
   plot_in_out_degree_distributions
     (NdArray \<lparr>dtype = int64, shape = [2, 1], data = [Fin 0, Fin 5]\<rparr>) ''toy'' = Inl IndexError"
proof -
  let ?dense = "\<lparr>dtype = int64, shape = [2, 3], data = [Fin 0, Fin 1, Fin 2, Fin 1, Fin 2, Fin 0]\<rparr>"
  let ?sparse = "\<lparr>dtype = int64, shape = [2, 1], data = [Fin 0, Fin 5]\<rparr>"
  have wf: "wf_ndarray ?dense" "wf_ndarray ?sparse"
    by (simp_all add: wf_ndarray_def)
  have count: "card (set (data ?dense)) = 3" "card (set (data ?sparse)) = 2"
    by (simp_all add: card_insert_if)
  have N: "(3::nat) \<noteq> 2" "(1::nat) \<noteq> 2"
    by simp_all
  show ?thesis
    using degree_arrays_sized_by_distinct_ids
            [OF wf(1) _ _ N(1) count(1), of "''toy''", THEN conjunct2]
          degree_arrays_sized_by_distinct_ids
            [OF wf(2) _ _ N(2) count(2), of "''toy''", THEN conjunct2]
    by simp
qed

text \<open>The edge index of the single edge \<open>(0, 5)\<close>: two distinct ids, so both arrays have
  two slots, not the six of a sizing by the largest id, and the increment of
  \<^verbatim>\<open>in_degrees[5]\<close> raises \<^verbatim>\<open>IndexError\<close>.\<close>

theorem degree_arrays_not_sized_by_max_id:
  "get_num_nodes_from_edge_index \<lparr>dtype = int64, shape = [2, 1], data = [Fin 0, Fin 5]\<rparr> = Inr 2 \<and>
   degree_arrays \<lparr>dtype = int64, shape = [2, 1], data = [Fin 0, Fin 5]\<rparr> = Inl IndexError \<and>
   plot_in_out_degree_distributions
     (NdArray \<lparr>dtype = int64, shape = [2, 1], data = [Fin 0, Fin 5]\<rparr>) ''toy'' = Inl IndexError"
  by (simp add: plot_in_out_degree_distributions_def degree_distributions_def degree_arrays_def
        get_num_nodes_from_edge_index_def index_axis0_def py_set_def len_union_def cell_at_def
        eval_nat_numeral)

text \<open>C5: for the edge index with the edges \<open>(0, 1)\<close>, \<open>(1, 2)\<close> and \<open>(2, 0)\<close> the function
  computes the node count 3, the in-degrees and the out-degrees \<open>[1, 1, 1]\<close> and the
  histogram \<open>[0, 3]\<close> of the out-degrees.\<close>

theorem triangle_degree_statistics:
  "plot_in_out_degree_distributions
     (NdArray \<lparr>dtype = int64, shape = [2, 3],
               data = [Fin 0, Fin 1, Fin 2, Fin 1, Fin 2, Fin 0]\<rparr>) dataset_name =
   Inr \<lparr>num_of_nodes = 3, in_degrees = [1, 1, 1], out_degrees = [1, 1, 1], hist = [0, 3],
        hist_title = ''Node out degree distribution for '' @ dataset_name @ '' dataset''\<rparr>"
  by (simp add: plot_in_out_degree_distributions_def degree_distributions_def degree_arrays_def
        get_num_nodes_from_edge_index_def index_axis0_def py_set_def len_union_def cell_at_def
        out_degree_hist_def np_max_count_def eval_nat_numeral)

section \<open>Properties of the two entry points\<close>

text \<open>C9: a two-dimensional array whose two dimensions are equal is always converted:
  both functions go on with what \<^verbatim>\<open>convert_adj_to_edge_index\<close> returns for it, never with
  the array itself. An edge index of two edges has the shape \<open>(2, 2)\<close> and is read as an
  adjacency matrix too.\<close>

theorem square_input_is_converted:
  assumes "shape a = [n, n]"
  shows "\<exists>converted. convert_adj_to_edge_index (NdArray a) = Inr converted \<and>
           plot_in_out_degree_distributions (NdArray a) dataset_name =
             degree_distributions converted dataset_name \<and>
           visualize_graph env (NdArray a) node_labels dataset_name visualization_tool =
             draw_edge_index env converted node_labels dataset_name visualization_tool"
  using assms convert_square [OF assms]
  by (simp add: plot_in_out_degree_distributions_def visualize_graph_def)

text \<open>The edge index of the two edges \<open>(1, 0)\<close> and \<open>(1, 0)\<close> is read as the matrix with the
  rows \<open>[1, 1]\<close> and \<open>[0, 0]\<close>, that is as the edges \<open>(0, 0)\<close> and \<open>(0, 1)\<close>: the out-degrees
  come out as \<open>[2, 0]\<close>, where the two edges given have the out-degrees \<open>[0, 2]\<close>.\<close>

theorem square_input_is_converted_witness:
  "plot_in_out_degree_distributions
     (NdArray \<lparr>dtype = int64, shape = [2, 2], data = [Fin 1, Fin 1, Fin 0, Fin 0]\<rparr>) ''toy'' =
     Inr \<lparr>num_of_nodes = 2, in_degrees = [1, 1], out_degrees = [2, 0], hist = [1, 0, 1],
          hist_title = ''Node out degree distribution for toy dataset''\<rparr> \<and>
   degree_distributions
     \<lparr>dtype = int64, shape = [2, 2], data = [Fin 1, Fin 1, Fin 0, Fin 0]\<rparr> ''toy'' =
     Inr \<lparr>num_of_nodes = 2, in_degrees = [2, 0], out_degrees = [0, 2], hist = [1, 0, 1],
          hist_title = ''Node out degree distribution for toy dataset''\<rparr> \<and>
   visualize_graph path_graph_environment
     (NdArray \<lparr>dtype = int64, shape = [2, 2], data = [Fin 1, Fin 1, Fin 0, Fin 0]\<rparr>)
     [] ''toy'' NETWORKX =
     ([Nx_draw_networkx [(Fin 0, Fin 0), (Fin 0, Fin 1)], Plt_show], Returned) \<and>
   draw_edge_index path_graph_environment
     \<lparr>dtype = int64, shape = [2, 2], data = [Fin 1, Fin 1, Fin 0, Fin 0]\<rparr> [] ''toy'' NETWORKX =
     ([Nx_draw_networkx [(Fin 1, Fin 0), (Fin 1, Fin 0)], Plt_show], Returned)"
  using square_input_is_converted
          [of "\<lparr>dtype = int64, shape = [2, 2], data = [Fin 1, Fin 1, Fin 0, Fin 0]\<rparr>" 2
              "''toy''" path_graph_environment "[]" NETWORKX]
  by (simp add: convert_adj_to_edge_index_def asarray_transpose_def active_value_def
        equals_int_def degree_distributions_def degree_arrays_def draw_edge_index_def
        edge_index_tuples_def get_num_nodes_from_edge_index_def index_axis0_def py_set_def
        len_union_def cell_at_def out_degree_hist_def np_max_count_def eval_nat_numeral)

section \<open>Properties of the edge weights\<close>




lemma raw_weight_nonneg: "0 \<le> raw_weight b"
  by (simp add: raw_weight_def)





section \<open>Properties of the dispatch on the visualization tool\<close>

text \<open>What the example environment gives for the path graph, and that the networkx
  branch draws it.\<close>

lemma path_graph_weights:
  "igraph_weights path_graph_environment 4 (edge_index_tuples path_graph_edge_index) =
     Inr ((4, [(Fin 0, Fin 1), (Fin 1, Fin 2), (Fin 2, Fin 3)]),
          [Fin ((ln 3 / ln 4) ^ 6), Fin 1, Fin ((ln 3 / ln 4) ^ 6)], [1 / 2, 1, 1, 1 / 2])"
  by (simp add: igraph_weights_def path_graph_environment_def path_graph_edge_index_def
        edge_index_tuples_def edge_weights_raw_normalized_def edge_weights_raw_def np_log_def)

lemma path_graph_networkx:
  "visualize_graph path_graph_environment (NdArray path_graph_edge_index) [0, 1, 2, 3] ''Cora''
     NETWORKX =
     ([Nx_draw_networkx [(Fin 0, Fin 1), (Fin 1, Fin 2), (Fin 2, Fin 3)], Plt_show], Returned)"
  by (simp add: visualize_graph_def draw_edge_index_def path_graph_edge_index_def
        get_num_nodes_from_edge_index_def index_axis0_def py_set_def len_union_def
        edge_index_tuples_def)

lemma path_graph_igraph:
  "visualize_graph path_graph_environment (NdArray path_graph_edge_index) node_labels
     dataset_name IGRAPH =
   igraph_branch path_graph_environment 4 (edge_index_tuples path_graph_edge_index) node_labels
     dataset_name"
proof -
  have "get_num_nodes_from_edge_index path_graph_edge_index = Inr 4"
    by (simp add: path_graph_edge_index_def get_num_nodes_from_edge_index_def index_axis0_def
          py_set_def len_union_def)
  moreover have "shape path_graph_edge_index = [2, 3]"
    by (simp add: path_graph_edge_index_def)
  ultimately show ?thesis
    by (simp add: visualize_graph_def draw_edge_index_def)
qed

lemma lower_CORA: "lower DatasetType_CORA_name = ''cora''"
  by code_simp

lemma label_to_color_map_keys:
  "(label_to_color_map l = None) =
   (l \<noteq> 0 \<and> l \<noteq> 1 \<and> l \<noteq> 2 \<and> l \<noteq> 3 \<and> l \<noteq> 4 \<and> l \<noteq> 5 \<and> l \<noteq> 6)"
  unfolding label_to_color_map_def by (simp only: fun_upd_apply split: if_split) simp

lemma label_to_color_map_None:
  "label_to_color_map l = None \<longleftrightarrow> \<not> (0 \<le> l \<and> l \<le> 6)"
  unfolding label_to_color_map_keys by presburger

lemma dom_label_to_color_map: "dom label_to_color_map = {0..6}"
proof (rule set_eqI)
  fix l
  show "l \<in> dom label_to_color_map \<longleftrightarrow> l \<in> {0..6}"
    using label_to_color_map_None [of l] by (simp add: domIff)
qed

lemma vertex_colors_ok:
  "list_all (\<lambda>l. 0 \<le> l \<and> l \<le> 6) labels \<Longrightarrow>
   vertex_colors labels = Inr (map (\<lambda>l. the (label_to_color_map l)) labels)"
proof (induction labels)
  case Nil
  show ?case by simp
next
  case (Cons l labels)
  then obtain c where "label_to_color_map l = Some c"
    using label_to_color_map_None [of l] by (cases "label_to_color_map l") auto
  then show ?case using Cons by simp
qed

lemma vertex_colors_KeyError:
  "\<not> list_all (\<lambda>l. 0 \<le> l \<and> l \<le> 6) labels \<Longrightarrow>
   \<exists>l \<in> set labels. \<not> (0 \<le> l \<and> l \<le> 6) \<and> vertex_colors labels = Inl (KeyError l)"
proof (induction labels)
  case Nil
  then show ?case by simp
next
  case (Cons l labels)
  show ?case
  proof (cases "label_to_color_map l")
    case None
    then show ?thesis using label_to_color_map_None [of l] by simp
  next
    case (Some c)
    then have "0 \<le> l \<and> l \<le> 6" using label_to_color_map_None [of l] by auto
    then have "\<not> list_all (\<lambda>l. 0 \<le> l \<and> l \<le> 6) labels" using Cons.prems by simp
    then obtain l' where "l' \<in> set labels" "\<not> (0 \<le> l' \<and> l' \<le> 6)" "vertex_colors labels = Inl (KeyError l')"
      using Cons.IH by blast
    then show ?thesis using Some by auto
  qed
qed

text \<open>C7: for a tool other than \<^verbatim>\<open>NETWORKX\<close> and \<^verbatim>\<open>IGRAPH\<close> the call draws and prints
  nothing and never returns; it raises the exception whose message names the tool,
  \<^verbatim>\<open>Visualization tool <name> not supported.\<close>, whenever lines 90 to 95, which run before
  the tool is looked at, raise nothing (that is, whenever the same call with
  \<^verbatim>\<open>NETWORKX\<close> returns); otherwise it raises their error.\<close>

theorem unsupported_tool_raises:
  "fst (visualize_graph env edge_index node_labels dataset_name (OtherTool name)) = [] \<and>
   snd (visualize_graph env edge_index node_labels dataset_name (OtherTool name)) \<noteq> Returned \<and>
   (snd (visualize_graph env edge_index node_labels dataset_name NETWORKX) = Returned \<longrightarrow>
      visualize_graph env edge_index node_labels dataset_name (OtherTool name) =
        ([], Raised (Exception (''Visualization tool '' @ name @ '' not supported.''))))"
  by (auto simp: visualize_graph_def draw_edge_index_def
      split: pyobj.splits list.splits sum.splits)


theorem unsupported_tool_raises_witness:
  "snd (visualize_graph path_graph_environment (NdArray path_graph_edge_index) [0, 1, 2, 3]
          ''Cora'' NETWORKX) = Returned \<and>
   visualize_graph path_graph_environment (NdArray path_graph_edge_index) [0, 1, 2, 3] ''Cora''
     (OtherTool ''GEPHI'') =
     ([], Raised (Exception ''Visualization tool GEPHI not supported.''))"
  using unsupported_tool_raises
          [of path_graph_environment "NdArray path_graph_edge_index" "[0, 1, 2, 3]" "''Cora''"
              "''GEPHI''"]
  by (simp add: path_graph_networkx)

text \<open>C10: in the igraph branch, once the graph, the edge widths and the vertex sizes
  are computed (lines 107 to 132 raised nothing), a dataset name that is \<^verbatim>\<open>cora\<close> in
  lower case has every label looked up in the map of the seven keys 0 to 6: the call
  plots with the colors of the labels when all labels are keys, and raises \<^verbatim>\<open>KeyError\<close>
  for a label that is no key, plotting nothing. Under any other dataset name the
  labels make no difference to what the branch does.\<close>

theorem cora_labels_are_looked_up:
  assumes reach: "igraph_weights env n tuples = Inr (ig_graph, edge_weights, sizes)"
  shows "dom label_to_color_map = {0..6} \<and>
    (lower dataset_name = ''cora'' \<longrightarrow>
       (if list_all (\<lambda>l. 0 \<le> l \<and> l \<le> 6) node_labels
        then igraph_branch env n tuples node_labels dataset_name =
               (igraph_plot env ig_graph edge_weights sizes
                  (Some (map (\<lambda>l. the (label_to_color_map l)) node_labels)), Returned)
        else \<exists>l \<in> set node_labels. \<not> (0 \<le> l \<and> l \<le> 6) \<and>
               igraph_branch env n tuples node_labels dataset_name = ([], Raised (KeyError l)))) \<and>
    (lower dataset_name \<noteq> ''cora'' \<longrightarrow>
       igraph_branch env n tuples node_labels dataset_name =
       igraph_branch env n tuples other_labels dataset_name)"
proof -
  have cora: "igraph_branch env n tuples node_labels dataset_name =
      (case vertex_colors node_labels of
         Inl e \<Rightarrow> ([], Raised e)
       | Inr colors \<Rightarrow> (igraph_plot env ig_graph edge_weights sizes (Some colors), Returned))"
    if "lower dataset_name = ''cora''"
    using that reach by (simp add: igraph_branch_def lower_CORA)
  have ok: "igraph_branch env n tuples node_labels dataset_name =
               (igraph_plot env ig_graph edge_weights sizes
                  (Some (map (\<lambda>l. the (label_to_color_map l)) node_labels)), Returned)"
    if "lower dataset_name = ''cora''" "list_all (\<lambda>l. 0 \<le> l \<and> l \<le> 6) node_labels"
    using cora [OF that(1)] vertex_colors_ok [OF that(2)] by simp
  have bad: "\<exists>l \<in> set node_labels. \<not> (0 \<le> l \<and> l \<le> 6) \<and>
               igraph_branch env n tuples node_labels dataset_name = ([], Raised (KeyError l))"
    if "lower dataset_name = ''cora''" "\<not> list_all (\<lambda>l. 0 \<le> l \<and> l \<le> 6) node_labels"
    using cora [OF that(1)] vertex_colors_KeyError [OF that(2)] by auto
  have other: "igraph_branch env n tuples node_labels dataset_name =
       igraph_branch env n tuples other_labels dataset_name"
    if "lower dataset_name \<noteq> ''cora''"
    using that reach by (simp add: igraph_branch_def lower_CORA)
  show ?thesis
    using ok bad other dom_label_to_color_map by simp
qed

theorem cora_labels_witness:
  "igraph_branch path_graph_environment 4 (edge_index_tuples path_graph_edge_index)
     [0, 1, 2, 3] ''Cora'' =
     (igraph_plot path_graph_environment (4, [(Fin 0, Fin 1), (Fin 1, Fin 2), (Fin 2, Fin 3)])
        [Fin ((ln 3 / ln 4) ^ 6), Fin 1, Fin ((ln 3 / ln 4) ^ 6)] [1 / 2, 1, 1, 1 / 2]
        (Some [''red'', ''blue'', ''green'', ''orange'']), Returned) \<and>
   visualize_graph path_graph_environment (NdArray path_graph_edge_index) [0, 1, 2, 7] ''CORA''
     IGRAPH = ([], Raised (KeyError 7)) \<and>
   igraph_branch path_graph_environment 4 (edge_index_tuples path_graph_edge_index)
     [0, 1, 2, 7] ''CiteSeer'' =
   igraph_branch path_graph_environment 4 (edge_index_tuples path_graph_edge_index)
     [] ''CiteSeer''"
proof -
  have cora: "lower ''Cora'' = ''cora''" "lower ''CORA'' = ''cora''"
    by code_simp+
  have other: "lower ''CiteSeer'' \<noteq> ''cora''"
    by code_simp
  have colors: "map (\<lambda>l. the (label_to_color_map l)) [0, 1, 2, 3] =
      [''red'', ''blue'', ''green'', ''orange'']"
    by (simp add: label_to_color_map_def)
  show ?thesis
    using cora_labels_are_looked_up [OF path_graph_weights, of "''Cora''" "[0, 1, 2, 3]"]
          cora_labels_are_looked_up [OF path_graph_weights, of "''CORA''" "[0, 1, 2, 7]"]
          cora_labels_are_looked_up [OF path_graph_weights, of "''CiteSeer''" "[0, 1, 2, 7]" "[]"]
    by (simp add: cora other path_graph_igraph colors del: list.map)
qed

end
